theory Spec2Isabelle
  imports Main "HOL-Library.Word"
begin

unbundle bit_operations_syntax

section \<open>The lnkinfo decoder (src/lnkinfo/main.go)\<close>

subsection \<open>Bytes, errors and results\<close>

text \<open>
  A Go \<^verbatim>\<open>[]byte\<close> and a Go \<^verbatim>\<open>string\<close> are both byte sequences. The cursor
  \<^verbatim>\<open>pos\<close> is a \<^verbatim>\<open>uint32\<close>: its additions wrap around at \<open>2 ^ 32\<close>.
\<close>

type_synonym byte = "8 word"
type_synonym bytes = "byte list"

text \<open>The errors the source creates with \<^verbatim>\<open>errors.New\<close>, one constructor per message.\<close>

datatype error =
    UnexpectedEOF
  | SeekBeyondEOF
  | InvalidHeaderSize
  | InvalidCLSID
  | InvalidIDListTerminator

record BinaryReader =
  data :: bytes
  pos :: "32 word"

text \<open>
  A call on the reader either returns a value together with the reader as the call left
  it (the reader is shared through a pointer, so the caller sees its cursor also after an
  error), or it stops the program with a Go run-time panic.
\<close>

datatype 'a result = Panic | Return 'a BinaryReader

definition then_do :: "'a result \<Rightarrow> ('a \<Rightarrow> BinaryReader \<Rightarrow> 'b result) \<Rightarrow> 'b result" where
  "then_do m f = (case m of Panic \<Rightarrow> Panic | Return v r \<Rightarrow> f v r)"

definition NewBinaryReader :: "bytes \<Rightarrow> BinaryReader" where
  "NewBinaryReader d = \<lparr>data = d, pos = 0\<rparr>"

text \<open>
  The slice expression \<^verbatim>\<open>d[lo:hi]\<close> with \<^verbatim>\<open>uint32\<close> bounds: a run-time panic
  (\<open>None\<close>) unless \<open>lo \<le> hi\<close> and \<open>hi\<close> is within the slice. Go bounds \<open>hi\<close> by the
  capacity; every caller below has already checked \<open>hi\<close> against the length, so the length
  stands for it.
\<close>

definition slice :: "bytes \<Rightarrow> 32 word \<Rightarrow> 32 word \<Rightarrow> bytes option" where
  "slice d lo hi =
     (if unat lo \<le> unat hi \<and> unat hi \<le> length d
      then Some (take (unat hi - unat lo) (drop (unat lo) d))
      else None)"

subsection \<open>The reader primitives\<close>

text \<open>
  \<^verbatim>\<open>read(v)\<close> with \<open>n = binary.Size(v)\<close> (2, 4 or 8 in this program). The check is made
  in \<^verbatim>\<open>int\<close>, the slice bound in \<^verbatim>\<open>uint32\<close>. \<^verbatim>\<open>binary.Read\<close> on a slice of
  exactly \<open>n\<close> bytes does not fail; the bytes read are returned here and decoded by
  the caller.
\<close>

definition read :: "BinaryReader \<Rightarrow> nat \<Rightarrow> (error + bytes) result" where
  "read r n =
     (if unat (pos r) + n > length (data r) then Return (Inl UnexpectedEOF) r
      else case slice (data r) (pos r) (pos r + of_nat n) of
             None \<Rightarrow> Panic
           | Some b \<Rightarrow> Return (Inr b) (r\<lparr>pos := pos r + of_nat n\<rparr>))"

definition readBytes :: "BinaryReader \<Rightarrow> 32 word \<Rightarrow> (error + bytes) result" where
  "readBytes r n =
     (if unat (pos r + n) > length (data r) then Return (Inl UnexpectedEOF) r
      else case slice (data r) (pos r) (pos r + n) of
             None \<Rightarrow> Panic
           | Some b \<Rightarrow> Return (Inr b) (r\<lparr>pos := pos r + n\<rparr>))"

definition seek :: "BinaryReader \<Rightarrow> 32 word \<Rightarrow> (error + unit) result" where
  "seek r p =
     (if unat p > length (data r) then Return (Inl SeekBeyondEOF) r
      else Return (Inr ()) (r\<lparr>pos := p\<rparr>))"

text \<open>Little-endian decoding, as \<^verbatim>\<open>binary.Read\<close> with \<^verbatim>\<open>binary.LittleEndian\<close> does it.\<close>

fun le_nat :: "bytes \<Rightarrow> nat" where
  "le_nat [] = 0"
| "le_nat (b # bs) = unat b + 256 * le_nat bs"

definition le16 :: "bytes \<Rightarrow> 16 word" where
  "le16 bs = of_nat (le_nat bs)"

definition le32 :: "bytes \<Rightarrow> 32 word" where
  "le32 bs = of_nat (le_nat bs)"

definition le64 :: "bytes \<Rightarrow> 64 word" where
  "le64 bs = of_nat (le_nat bs)"


subsection \<open>Timestamps\<close>

text \<open>
  \<^verbatim>\<open>filetimeToTime\<close>: \<^verbatim>\<open>nil\<close> for zero; otherwise the subtraction and the division
  are those of \<^verbatim>\<open>uint64\<close>, and the quotient converted to \<^verbatim>\<open>int64\<close> is the Unix
  second of the returned UTC instant, which stands for the instant here.
\<close>

definition filetimeToTime :: "64 word \<Rightarrow> int option" where
  "filetimeToTime ft =
     (if ft = 0 then None
      else Some (sint ((ft - 116444736000000000) div 10000000)))"

subsection \<open>Strings\<close>

text \<open>
  The loop of \<^verbatim>\<open>readCString\<close>, with the bytes collected so far. \<^verbatim>\<open>b[0]\<close> on an
  empty slice would be an index panic.
\<close>

function readCString_loop :: "BinaryReader \<Rightarrow> bytes \<Rightarrow> (error + bytes) result" where
  "readCString_loop r out =
     (case readBytes r 1 of
        Panic \<Rightarrow> Panic
      | Return v r' \<Rightarrow>
          (case v of
             Inl e \<Rightarrow> Return (Inl e) r'
           | Inr b \<Rightarrow>
               (case b of
                  [] \<Rightarrow> Panic
                | b0 # _ \<Rightarrow>
                    if b0 = 0 then Return (Inr out) r'
                    else readCString_loop r' (out @ [b0]))))"
  by pat_completeness auto
termination
proof (relation "measure (\<lambda>(r, out). 2 ^ 32 - unat (pos r))")
  show "wf (measure (\<lambda>(r, out). 2 ^ 32 - unat (pos r)))" by simp
next
  fix r :: BinaryReader and out :: bytes and v r' b b0 bs
  assume "readBytes r 1 = Return v r'" and "v = Inr b"
  then have le: "unat (pos r) \<le> unat (pos r + 1)" and p: "pos r' = pos r + 1"
    by (auto simp: readBytes_def slice_def split: if_splits)
  have m: "unat (pos r + 1) = (unat (pos r) + 1) mod 2 ^ 32"
    by (simp add: unat_word_ariths)
  have b: "unat (pos r) < 2 ^ 32"
    using unsigned_less [of "pos r"] by simp
  have "unat (pos r) + 1 \<noteq> 2 ^ 32"
  proof
    assume "unat (pos r) + 1 = 2 ^ 32"
    with m le show False by simp
  qed
  with b have "unat (pos r) + 1 < 2 ^ 32" by simp
  with m p have "unat (pos r') = Suc (unat (pos r))" by simp
  moreover have "unat (pos r') < 2 ^ 32"
    using unsigned_less [of "pos r'"] by simp
  ultimately show "((r', out @ [b0]), (r, out)) \<in> measure (\<lambda>(r, out). 2 ^ 32 - unat (pos r))"
    by simp
qed

declare readCString_loop.simps [simp del]

definition readCString :: "BinaryReader \<Rightarrow> (error + bytes) result" where
  "readCString r = readCString_loop r []"

text \<open>
  A callee that fails returns the empty string beside its error; a caller that discards
  the error with \<^verbatim>\<open>_\<close> goes on with that string.
\<close>

definition strOf :: "error + bytes \<Rightarrow> bytes" where
  "strOf v = (case v of Inl _ \<Rightarrow> [] | Inr s \<Rightarrow> s)"

text \<open>
  A variable filled by \<^verbatim>\<open>r.read(&x)\<close> whose error is not looked at: it keeps its zero
  value when the read failed.
\<close>

definition decoded :: "(bytes \<Rightarrow> 'a::zero) \<Rightarrow> error + bytes \<Rightarrow> 'a" where
  "decoded f v = (case v of Inl _ \<Rightarrow> 0 | Inr b \<Rightarrow> f b)"

text \<open>
  A Go \<^verbatim>\<open>map[string]string\<close> as an association list with one entry per key;
  \<^verbatim>\<open>m[k] = v\<close> replaces the entry of \<open>k\<close> or adds one. The \<^verbatim>\<open>nil\<close> map and the
  empty map are both \<open>[]\<close>.
\<close>

type_synonym strmap = "(string \<times> bytes) list"

fun assign :: "string \<Rightarrow> bytes \<Rightarrow> strmap \<Rightarrow> strmap" where
  "assign k v [] = [(k, v)]"
| "assign k v ((k', v') # m) = (if k' = k then (k, v) # m else (k', v') # assign k v m)"

text \<open>\<^verbatim>\<open>bytes.TrimRight(b, "\x00")\<close> and \<^verbatim>\<open>bytes.HasSuffix\<close>.\<close>

definition TrimRight_nul :: "bytes \<Rightarrow> bytes" where
  "TrimRight_nul b = rev (dropWhile (\<lambda>x. x = 0) (rev b))"

definition HasSuffix :: "bytes \<Rightarrow> bytes \<Rightarrow> bool" where
  "HasSuffix d s \<longleftrightarrow> length s \<le> length d \<and> drop (length d - length s) d = s"

definition readString :: "BinaryReader \<Rightarrow> bool \<Rightarrow> (error + bytes) result" where
  "readString r unicode =
     then_do (read r 2) (\<lambda>v r1.
       case v of
         Inl e \<Rightarrow> Return (Inl e) r1
       | Inr lb \<Rightarrow>
           if unicode then
             then_do (readBytes r1 (ucast (le16 lb) * 2)) (\<lambda>v r2.
               case v of
                 Inl e \<Rightarrow> Return (Inl e) r2
               | Inr b \<Rightarrow> Return (Inr (TrimRight_nul b)) r2)
           else
             then_do (readBytes r1 (ucast (le16 lb))) (\<lambda>v r2.
               case v of
                 Inl e \<Rightarrow> Return (Inl e) r2
               | Inr b \<Rightarrow> Return (Inr b) r2))"

subsection \<open>The header\<close>

definition lnkCLSID :: bytes where
  "lnkCLSID =
     [0x01, 0x14, 0x02, 0x00,
      0x00, 0x00, 0x00, 0x00,
      0xC0, 0x00, 0x00, 0x00,
      0x00, 0x00, 0x00, 0x46]"

text \<open>The values \<^verbatim>\<open>parseHeader\<close> stores in its map, one field per key.\<close>

record Header =
  CreationTime :: "int option"
  AccessTime :: "int option"
  WriteTime :: "int option"
  FileSize :: "32 word"
  IconIndex :: "32 word"
  ShowCommand :: "32 word"
  HotKey :: "16 word"
  FileAttributes :: "32 word"

text \<open>
  The first two reads are checked; the nine that follow are not, and the ten reserved
  bytes are skipped by adding to the cursor directly.
\<close>

definition parseHeader :: "BinaryReader \<Rightarrow> (error + Header \<times> 32 word) result" where
  "parseHeader r =
     then_do (read r 4) (\<lambda>v r1.
       case v of
         Inl e \<Rightarrow> Return (Inl e) r1
       | Inr headerSize \<Rightarrow>
     then_do (readBytes r1 16) (\<lambda>v r2.
       case v of
         Inl e \<Rightarrow> Return (Inl e) r2
       | Inr clsid \<Rightarrow>
           if le32 headerSize \<noteq> 0x4C then Return (Inl InvalidHeaderSize) r2
           else if clsid \<noteq> lnkCLSID then Return (Inl InvalidCLSID) r2
           else
     then_do (read r2 4) (\<lambda>linkFlags r3.
     then_do (read r3 4) (\<lambda>fileAttr r4.
     then_do (read r4 8) (\<lambda>ctime r5.
     then_do (read r5 8) (\<lambda>atime r6.
     then_do (read r6 8) (\<lambda>wtime r7.
     then_do (read r7 4) (\<lambda>fileSize r8.
     then_do (read r8 4) (\<lambda>iconIndex r9.
     then_do (read r9 4) (\<lambda>showCmd r10.
     then_do (read r10 2) (\<lambda>hotKey r11.
       Return
         (Inr (\<lparr>CreationTime = filetimeToTime (decoded le64 ctime),
                AccessTime = filetimeToTime (decoded le64 atime),
                WriteTime = filetimeToTime (decoded le64 wtime),
                FileSize = decoded le32 fileSize,
                IconIndex = decoded le32 iconIndex,
                ShowCommand = decoded le32 showCmd,
                HotKey = decoded le16 hotKey,
                FileAttributes = decoded le32 fileAttr\<rparr>,
               decoded le32 linkFlags))
         (r11\<lparr>pos := pos r11 + 10\<rparr>))))))))))))"

subsection \<open>The ID list and the link info\<close>

definition parseLinkTargetIDList :: "BinaryReader \<Rightarrow> (error + unit) result" where
  "parseLinkTargetIDList r =
     then_do (read r 2) (\<lambda>v r1.
       case v of
         Inl e \<Rightarrow> Return (Inl e) r1
       | Inr sb \<Rightarrow>
     then_do (readBytes r1 (ucast (le16 sb))) (\<lambda>v r2.
       case v of
         Inl e \<Rightarrow> Return (Inl e) r2
       | Inr d \<Rightarrow>
           if \<not> HasSuffix d [0x00, 0x00] then Return (Inl InvalidIDListTerminator) r2
           else Return (Inr ()) r2))"

text \<open>
  An optional path of \<^verbatim>\<open>parseLinkInfo\<close>: when the offset is not zero, seek (error not
  looked at), read a NUL-terminated string (error discarded) and store it under the key.
\<close>

definition linkInfoPath ::
  "32 word \<Rightarrow> 32 word \<Rightarrow> string \<Rightarrow> strmap \<Rightarrow> BinaryReader \<Rightarrow> strmap result" where
  "linkInfoPath start off key out r =
     (if off \<noteq> 0 then
        then_do (seek r (start + off)) (\<lambda>_ ra.
        then_do (readCString ra) (\<lambda>s rb.
          Return (assign key (strOf s) out) rb))
      else Return out r)"

definition parseLinkInfo :: "BinaryReader \<Rightarrow> (error + strmap) result" where
  "parseLinkInfo r =
     (let start = pos r in
      then_do (read r 4) (\<lambda>size_f r1.
      then_do (read r1 4) (\<lambda>headerSize r2.
      then_do (read r2 4) (\<lambda>flags r3.
      then_do (read r3 4) (\<lambda>volOff r4.
      then_do (read r4 4) (\<lambda>localOff r5.
      then_do (read r5 4) (\<lambda>netOff r6.
      then_do (read r6 4) (\<lambda>commonOff r7.
      then_do (linkInfoPath start (decoded le32 localOff) ''LocalBasePath'' [] r7) (\<lambda>out r8.
      then_do (linkInfoPath start (decoded le32 commonOff) ''CommonPathSuffix'' out r8) (\<lambda>out r9.
      then_do (seek r9 (start + decoded le32 size_f)) (\<lambda>_ r10.
        Return (Inr out) r10)))))))))))"

subsection \<open>The extra data\<close>

text \<open>
  The loop of \<^verbatim>\<open>skipExtraData\<close>. Nothing in it bounds the number of rounds, so a run
  that never leaves the loop is the value \<open>None\<close>. The skip adds \<open>size - 4\<close> to the
  cursor in \<^verbatim>\<open>uint32\<close>, with no check.
\<close>

partial_function (option) skipExtraData :: "BinaryReader \<Rightarrow> (error + unit) result option" where
  "skipExtraData r =
     (case read r 4 of
        Panic \<Rightarrow> Some Panic
      | Return v r1 \<Rightarrow>
          (case v of
             Inl e \<Rightarrow> Some (Return (Inl e) r1)
           | Inr sb \<Rightarrow>
               if le32 sb = 0 then Some (Return (Inr ()) r1)
               else skipExtraData (r1\<lparr>pos := pos r1 + (le32 sb - 4)\<rparr>)))"

declare skipExtraData.simps [code]

subsection \<open>The program\<close>

text \<open>
  What a run of \<^verbatim>\<open>main\<close> on the bytes of the file prints: the parse error of the
  header, or the report of the header, the link info and the string data; or it stops
  with a run-time panic.
\<close>

datatype outcome =
    ParseError error
  | Report Header strmap strmap
  | RuntimePanic

text \<open>One optional string field of \<^verbatim>\<open>main\<close>: read when its flag is set, error discarded.\<close>

definition stringField ::
  "32 word \<Rightarrow> 32 word \<Rightarrow> string \<Rightarrow> bool \<Rightarrow> strmap \<Rightarrow> BinaryReader \<Rightarrow> strmap result" where
  "stringField flags b key unicode strings r =
     (if flags AND b \<noteq> 0 then
        then_do (readString r unicode) (\<lambda>v r'. Return (assign key (strOf v) strings) r')
      else Return strings r)"

text \<open>The steps of \<^verbatim>\<open>main\<close> between the header and the extra data.\<close>

definition sections ::
  "32 word \<Rightarrow> BinaryReader \<Rightarrow> (strmap \<times> strmap) result" where
  "sections flags r =
     (let unicode = (flags AND 0x80 \<noteq> 0) in
      then_do (if flags AND 0x01 \<noteq> 0
               then then_do (parseLinkTargetIDList r) (\<lambda>_ r'. Return () r')
               else Return () r) (\<lambda>_ r1.
      then_do (if flags AND 0x02 \<noteq> 0
               then then_do (parseLinkInfo r1) (\<lambda>v r'.
                      Return (case v of Inl _ \<Rightarrow> [] | Inr m \<Rightarrow> m) r')
               else Return [] r1) (\<lambda>linkInfo r2.
      then_do (stringField flags 0x04 ''Name'' unicode [] r2) (\<lambda>s1 r3.
      then_do (stringField flags 0x08 ''RelativePath'' unicode s1 r3) (\<lambda>s2 r4.
      then_do (stringField flags 0x10 ''WorkingDirectory'' unicode s2 r4) (\<lambda>s3 r5.
      then_do (stringField flags 0x20 ''Arguments'' unicode s3 r5) (\<lambda>s4 r6.
      then_do (stringField flags 0x40 ''IconLocation'' unicode s4 r6) (\<lambda>s5 r7.
        Return (linkInfo, s5) r7))))))))"

definition main :: "bytes \<Rightarrow> outcome option" where
  "main d =
     (case parseHeader (NewBinaryReader d) of
        Panic \<Rightarrow> Some RuntimePanic
      | Return v r \<Rightarrow>
          (case v of
             Inl e \<Rightarrow> Some (ParseError e)
           | Inr (h, flags) \<Rightarrow>
               (case sections flags r of
                  Panic \<Rightarrow> Some RuntimePanic
                | Return (linkInfo, strings) r' \<Rightarrow>
                    (case skipExtraData r' of
                       None \<Rightarrow> None
                     | Some Panic \<Rightarrow> Some RuntimePanic
                     | Some (Return _ _) \<Rightarrow> Some (Report h linkInfo strings)))))"

subsection \<open>Example inputs\<close>

text \<open>
  A well-formed header of 76 bytes whose flags field is \<open>fl\<close> and whose other fields are
  zero, and the header that \<^verbatim>\<open>parseHeader\<close> returns for it.
\<close>

definition lnk_header :: "byte \<Rightarrow> bytes" where
  "lnk_header fl = [0x4C, 0, 0, 0] @ lnkCLSID @ [fl, 0, 0, 0] @ replicate 52 0"

definition zero_header :: Header where
  "zero_header =
     \<lparr>CreationTime = None, AccessTime = None, WriteTime = None, FileSize = 0,
      IconIndex = 0, ShowCommand = 0, HotKey = 0, FileAttributes = 0\<rparr>"

text \<open>
  A file of 84 bytes: the header with no flag set, an extra-data block of size 4 and a
  block of size \<open>0xFFFFFFFC\<close>.
\<close>

definition looping_file :: bytes where
  "looping_file = lnk_header 0 @ [0x04, 0x00, 0x00, 0x00, 0xFC, 0xFF, 0xFF, 0xFF]"

text \<open>
  A link-info block of size 32 whose local-base-path offset 28 points at the string
  \<^verbatim>\<open>C:\<close>, followed by eight bytes of the next section.
\<close>

definition linkinfo_block :: bytes where
  "linkinfo_block =
     [32, 0, 0, 0] @ replicate 12 0 @ [28, 0, 0, 0] @ replicate 8 0 @
     [0x43, 0x3A, 0x00, 0x00] @ replicate 8 0xFF"

text \<open>
  A file of 111 bytes whose later steps all go wrong: the header with the flags \<open>0x07\<close>
  (ID list, link info, Name), an ID list of two bytes that are not the terminator, a
  link-info block whose size field 100 points beyond the file, and a Name field that
  declares five bytes and holds one.
\<close>

definition failing_steps_file :: bytes where
  "failing_steps_file =
     lnk_header 0x07 @ [2, 0, 1, 1] @ [100, 0, 0, 0] @ replicate 24 0 @ [5, 0, 0x41]"

text \<open>
  Thirty-two bytes with a link-info block at offset 4 whose size field is
  \<open>0xFFFFFFFC\<close>.
\<close>

definition wrapping_block :: bytes where
  "wrapping_block = [0, 0, 0, 0] @ [0xFC, 0xFF, 0xFF, 0xFF] @ replicate 24 0"

section \<open>Properties\<close>

lemmas run_defs =
  read_def readBytes_def seek_def slice_def then_do_def le16_def le32_def le64_def
  decoded_def filetimeToTime_def NewBinaryReader_def

lemma le_nat_zeros [simp]: "le_nat (replicate n 0) = 0"
  by (induction n) simp_all

lemma then_do_Return:
  "then_do m f = Return x r' \<longleftrightarrow> (\<exists>v r1. m = Return v r1 \<and> f v r1 = Return x r')"
  by (cases m) (simp_all add: then_do_def)

lemma then_do_Return_left: "then_do (Return v r) f = f v r"
  by (simp add: then_do_def)

subsection \<open>The reader primitives\<close>

lemma read_error_keeps_reader: "read r n = Return (Inl e) r' \<Longrightarrow> r' = r"
  by (auto simp: read_def split: if_splits option.splits)

lemma readBytes_error_keeps_reader: "readBytes r n = Return (Inl e) r' \<Longrightarrow> r' = r"
  by (auto simp: readBytes_def split: if_splits option.splits)

lemma seek_error_keeps_reader: "seek r p = Return (Inl e) r' \<Longrightarrow> r' = r"
  by (auto simp: seek_def split: if_splits)

lemma read_error_kind: "read r n = Return (Inl e) r' \<Longrightarrow> e = UnexpectedEOF"
  by (auto simp: read_def split: if_splits option.splits)

lemma read_data: "read r n = Return v r' \<Longrightarrow> data r' = data r"
  by (auto simp: read_def split: if_splits option.splits)

lemma readBytes_data: "readBytes r n = Return v r' \<Longrightarrow> data r' = data r"
  by (auto simp: readBytes_def split: if_splits option.splits)

lemma seek_data: "seek r p = Return v r' \<Longrightarrow> data r' = data r"
  by (auto simp: seek_def split: if_splits)

text \<open>The three checked primitives leave the cursor inside the buffer when they succeed.\<close>

lemma read_in_bounds: "read r n = Return (Inr b) r' \<Longrightarrow> unat (pos r') \<le> length (data r')"
  by (auto simp: read_def slice_def split: if_splits)

lemma readBytes_in_bounds:
  "readBytes r n = Return (Inr b) r' \<Longrightarrow> unat (pos r') \<le> length (data r')"
  by (auto simp: readBytes_def slice_def split: if_splits)

lemma seek_in_bounds: "seek r p = Return (Inr u) r' \<Longrightarrow> unat (pos r') \<le> length (data r')"
  by (auto simp: seek_def split: if_splits)

text \<open>
  C10. Failure atomicity of the reader primitives: whenever a fixed-width read, a
  variable-length byte read or a seek returns an error, the cursor (and the buffer) is
  exactly what it was before the call.
\<close>

theorem primitives_failure_atomic:
  "(read r n = Return (Inl e) r' \<longrightarrow> pos r' = pos r \<and> data r' = data r) \<and>
   (readBytes r m = Return (Inl e) r' \<longrightarrow> pos r' = pos r \<and> data r' = data r) \<and>
   (seek r p = Return (Inl e) r' \<longrightarrow> pos r' = pos r \<and> data r' = data r)"
  using read_error_keeps_reader readBytes_error_keeps_reader seek_error_keeps_reader
  by blast

theorem primitives_failure_atomic_witness:
  "read \<lparr>data = [1, 2], pos = 1\<rparr> 4 = Return (Inl UnexpectedEOF) \<lparr>data = [1, 2], pos = 1\<rparr> \<and>
   readBytes \<lparr>data = [1, 2], pos = 1\<rparr> 16 = Return (Inl UnexpectedEOF) \<lparr>data = [1, 2], pos = 1\<rparr> \<and>
   seek \<lparr>data = [1, 2], pos = 1\<rparr> 3 = Return (Inl SeekBeyondEOF) \<lparr>data = [1, 2], pos = 1\<rparr> \<and>
   pos \<lparr>data = [1, 2], pos = 1\<rparr> = (1 :: 32 word)"
  using primitives_failure_atomic
    [of "\<lparr>data = [1, 2], pos = 1\<rparr>" 4 UnexpectedEOF "\<lparr>data = [1, 2], pos = 1\<rparr>" 16 3]
  by (simp add: read_def readBytes_def seek_def)

subsection \<open>Timestamps\<close>

lemma filetimeToTime_zero: "filetimeToTime 0 = None"
  by (simp add: filetimeToTime_def)

lemma filetimeToTime_epoch: "filetimeToTime 116444736000000000 = Some 0"
  by (simp add: filetimeToTime_def)

text \<open>
  From 1970 on, the 64-bit subtraction does not wrap and the result is the Unix second
  of the tick count.
\<close>

lemma filetimeToTime_from_1970:
  assumes "116444736000000000 \<le> ft"
  shows "filetimeToTime ft = Some ((uint ft - 116444736000000000) div 10000000)"
proof -
  let ?q = "(ft - 116444736000000000) div 10000000"
  have nz: "ft \<noteq> 0" using assms by auto
  have s: "uint (ft - 116444736000000000) = uint ft - 116444736000000000"
    using assms by (simp add: uint_sub_if' word_le_def)
  have q: "uint ?q = (uint ft - 116444736000000000) div 10000000"
    by (simp add: uint_div s)
  have "uint ft < 2 ^ 64" using uint_bounded [of ft] by simp
  then have lt: "uint ?q < 2 ^ 63" using q by simp
  have "(0::int) \<le> uint ?q" by simp
  then have ge: "- (2 ^ 63) \<le> uint ?q" by (rule order_trans [rotated]) simp
  have "signed_take_bit 63 (uint ?q) = uint ?q"
    by (rule signed_take_bit_int_eq_self [OF ge lt])
  then have "sint ?q = uint ?q"
    by (simp add: sint_uint)
  with nz q show ?thesis by (simp add: filetimeToTime_def)
qed

text \<open>
  C9. The claim: a zero tick count gives no timestamp, and every other tick count gives
  the instant at Unix second \<open>(ticks - 116444736000000000) / 10000000\<close>. Zero, the
  epoch and every tick count from 1970 on do (the three lemmas above). A tick count
  before 1970 does not: for the tick count 1, one tenth of a microsecond after
  1601-01-01T00:00:00Z, the quotient of the claim is the Unix second \<open>-11644473600\<close>
  (\<open>-11644473599\<close> when rounded towards zero), and the code returns the second
  \<open>1833029933770\<close>, because its subtraction is made in \<^verbatim>\<open>uint64\<close> and wraps around.
\<close>

theorem filetimeToTime_before_1970:
  "filetimeToTime 1 = Some 1833029933770 \<and>
   (1 - 116444736000000000) div (10000000 :: int) = - 11644473600"
  by (simp add: filetimeToTime_def)

subsection \<open>String fields\<close>

text \<open>
  C4. The claim: a wide string field of declared length 3 with the bytes
  \<^verbatim>\<open>41 00 42 00 00 00\<close> decodes, as UTF-16 little-endian with the trailing NUL removed,
  to the two-character string \<^verbatim>\<open>AB\<close>. The code reads the count, consumes the six
  bytes and removes the trailing zero bytes, but it never decodes UTF-16: the string it
  returns is the three bytes \<^verbatim>\<open>41 00 42\<close>. So does a whole file: a header with the
  flags \<open>0x84\<close> (Name present, wide strings), that field and an empty extra-data block
  are reported with the Name \<^verbatim>\<open>41 00 42\<close>.
\<close>

theorem readString_wide_not_decoded:
  "readString \<lparr>data = [3, 0, 0x41, 0, 0x42, 0, 0, 0], pos = 0\<rparr> True =
     Return (Inr [0x41, 0x00, 0x42]) \<lparr>data = [3, 0, 0x41, 0, 0x42, 0, 0, 0], pos = 8\<rparr> \<and>
   main (lnk_header 0x84 @ [3, 0, 0x41, 0, 0x42, 0, 0, 0, 0, 0, 0, 0]) =
     Some (Report zero_header [] [(''Name'', [0x41, 0x00, 0x42])])"
  by (simp add: main_def sections_def stringField_def readString_def parseHeader_def
      skipExtraData.simps run_defs strOf_def TrimRight_nul_def lnkCLSID_def zero_header_def
      lnk_header_def)

text \<open>
  C5. The claim: a narrow string field of declared length \<open>n\<close> consumes \<open>n\<close> bytes and
  returns them without their trailing NUL padding. The code consumes the \<open>n\<close> bytes
  but trims only in the wide branch: for the field \<^verbatim>\<open>02 00 41 00\<close> it returns the two
  bytes \<^verbatim>\<open>41 00\<close>, which end in NUL. So does a whole file: a header with the flags
  \<open>0x04\<close> (Name present, narrow strings), that field and an empty extra-data block are
  reported with the Name \<^verbatim>\<open>41 00\<close>.
\<close>

theorem readString_narrow_not_trimmed:
  "readString \<lparr>data = [2, 0, 0x41, 0], pos = 0\<rparr> False =
     Return (Inr [0x41, 0x00]) \<lparr>data = [2, 0, 0x41, 0], pos = 4\<rparr> \<and>
   main (lnk_header 0x04 @ [2, 0, 0x41, 0, 0, 0, 0, 0]) =
     Some (Report zero_header [] [(''Name'', [0x41, 0x00])])"
  by (simp add: main_def sections_def stringField_def readString_def parseHeader_def
      skipExtraData.simps run_defs strOf_def TrimRight_nul_def lnkCLSID_def zero_header_def
      lnk_header_def)

subsection \<open>The extra data\<close>

text \<open>
  The loop returns no error but the one of its size read, and a successful return
  leaves the cursor inside the buffer.
\<close>

lemma skipExtraData_result:
  assumes "skipExtraData r = Some y"
  shows "y = Panic \<or> (\<exists>r'. y = Return (Inl UnexpectedEOF) r') \<or>
         (\<exists>r'. y = Return (Inr ()) r' \<and> unat (pos r') \<le> length (data r'))"
  using assms
proof (induction r y rule: skipExtraData.raw_induct [rotated 1, consumes 1, case_names step])
  case (step f r y)
  from step(2) show ?case
    by (auto split: result.splits sum.splits if_splits
        dest: step(1) read_in_bounds read_error_kind)
qed

text \<open>
  The skip itself is not checked: a block size beyond the end of the buffer moves the
  cursor there, and only the next read fails.
\<close>

lemma skipExtraData_skips_past_end:
  "skipExtraData \<lparr>data = [100, 0, 0, 0], pos = 0\<rparr> =
     Some (Return (Inl UnexpectedEOF) \<lparr>data = [100, 0, 0, 0], pos = 100\<rparr>)"
  by (simp add: skipExtraData.simps run_defs)

text \<open>
  C6. The claim: a block size of 1, 2 or 3 makes the decoder fail with CorruptExtraData
  instead of computing the skip \<open>size - 4\<close>. The code has no such check: for a
  well-formed header followed by the seven bytes \<^verbatim>\<open>03 00 00 00 00 00 00\<close> it reads
  the size 3 at cursor 76, adds \<open>3 - 4 = 0xFFFFFFFF\<close> to the cursor 80, which wraps to
  79, reads the size 0 there and returns success; \<^verbatim>\<open>main\<close> prints the report.
\<close>

theorem skipExtraData_size_below_4:
  "skipExtraData \<lparr>data = lnk_header 0 @ [3, 0, 0, 0, 0, 0, 0], pos = 76\<rparr> =
     Some (Return (Inr ()) \<lparr>data = lnk_header 0 @ [3, 0, 0, 0, 0, 0, 0], pos = 83\<rparr>) \<and>
   main (lnk_header 0 @ [3, 0, 0, 0, 0, 0, 0]) = Some (Report zero_header [] [])"
  by (simp add: main_def sections_def stringField_def readString_def parseHeader_def
      skipExtraData.simps run_defs strOf_def TrimRight_nul_def lnkCLSID_def zero_header_def
      lnk_header_def)

lemma read_looping_file_76:
  "read \<lparr>data = looping_file, pos = 76\<rparr> 4 =
     Return (Inr [0x04, 0x00, 0x00, 0x00]) \<lparr>data = looping_file, pos = 80\<rparr>"
  by (simp add: run_defs lnkCLSID_def lnk_header_def looping_file_def)

lemma read_looping_file_80:
  "read \<lparr>data = looping_file, pos = 80\<rparr> 4 =
     Return (Inr [0xFC, 0xFF, 0xFF, 0xFF]) \<lparr>data = looping_file, pos = 84\<rparr>"
  by (simp add: run_defs lnkCLSID_def lnk_header_def looping_file_def)

lemma wrap_to_76: "(4294967372 :: 32 word) = 76"
  by simp

text \<open>
  On \<open>looping_file\<close> the cursor goes from 76 to 80 (block of size 4) and from 80 back
  to 76 (\<open>84 + (0xFFFFFFFC - 4)\<close> wraps to 76): no run of the loop from either position
  returns.
\<close>

lemma skipExtraData_looping_file:
  assumes "skipExtraData r = Some y"
  shows "r \<noteq> \<lparr>data = looping_file, pos = 76\<rparr> \<and> r \<noteq> \<lparr>data = looping_file, pos = 80\<rparr>"
  using assms
proof (induction r y rule: skipExtraData.raw_induct [rotated 1, consumes 1, case_names step])
  case (step f r y)
  show ?case
  proof (intro conjI notI)
    assume "r = \<lparr>data = looping_file, pos = 76\<rparr>"
    with step(2) have "f \<lparr>data = looping_file, pos = 80\<rparr> = Some y"
      by (simp add: read_looping_file_76 le32_def)
    with step(1) show False by blast
  next
    assume "r = \<lparr>data = looping_file, pos = 80\<rparr>"
    with step(2) have "f \<lparr>data = looping_file, pos = 76\<rparr> = Some y"
      by (simp add: read_looping_file_80 le32_def wrap_to_76)
    with step(1) show False by blast
  qed
qed

lemma parseHeader_looping_file:
  "parseHeader (NewBinaryReader looping_file) =
     Return (Inr (zero_header, 0)) \<lparr>data = looping_file, pos = 76\<rparr>"
  by (simp add: parseHeader_def run_defs lnkCLSID_def zero_header_def lnk_header_def
      looping_file_def)

lemma sections_no_flags: "sections 0 r = Return ([], []) r"
  by (simp add: sections_def stringField_def then_do_def)

text \<open>
  C7. The claim: on every buffer the extra-data loop ends, at a zero-size block or with
  UnexpectedEOF. On the 84 bytes of \<open>looping_file\<close>, a well-formed header followed by
  \<^verbatim>\<open>04 00 00 00 FC FF FF FF\<close>, the loop entered at cursor 76 never returns, and so
  \<^verbatim>\<open>main\<close> never prints.
\<close>

theorem skipExtraData_runs_forever:
  "skipExtraData \<lparr>data = looping_file, pos = 76\<rparr> = None \<and> main looping_file = None"
proof -
  have n: "skipExtraData \<lparr>data = looping_file, pos = 76\<rparr> = None"
    using skipExtraData_looping_file
    by (cases "skipExtraData \<lparr>data = looping_file, pos = 76\<rparr>") auto
  then show ?thesis
    by (simp add: main_def parseHeader_looping_file sections_no_flags)
qed

subsection \<open>The header\<close>

lemma header_short:
  assumes "length d < 20"
  shows "parseHeader (NewBinaryReader d) =
           Return (Inl UnexpectedEOF) \<lparr>data = d, pos = (if length d < 4 then 0 else 4)\<rparr>"
proof (cases "length d < 4")
  case True
  then show ?thesis by (simp add: parseHeader_def run_defs)
next
  case False
  with assms show ?thesis by (simp add: parseHeader_def run_defs)
qed

lemma header_reads:
  assumes "20 \<le> length d"
  shows "read (NewBinaryReader d) 4 = Return (Inr (take 4 d)) \<lparr>data = d, pos = 4\<rparr>"
    and "readBytes \<lparr>data = d, pos = 4\<rparr> 16 =
           Return (Inr (take 16 (drop 4 d))) \<lparr>data = d, pos = 20\<rparr>"
  using assms by (simp_all add: run_defs)

lemma header_bad_size:
  assumes "20 \<le> length d" and "le32 (take 4 d) \<noteq> 0x4C"
  shows "parseHeader (NewBinaryReader d) =
           Return (Inl InvalidHeaderSize) \<lparr>data = d, pos = 20\<rparr>"
  using assms by (simp add: parseHeader_def header_reads then_do_def)

lemma header_bad_clsid:
  assumes "20 \<le> length d" and "le32 (take 4 d) = 0x4C" and "take 16 (drop 4 d) \<noteq> lnkCLSID"
  shows "parseHeader (NewBinaryReader d) = Return (Inl InvalidCLSID) \<lparr>data = d, pos = 20\<rparr>"
  using assms by (simp add: parseHeader_def header_reads then_do_def)

lemma parseHeader_lnk_header_4:
  "parseHeader (NewBinaryReader (lnk_header 4)) =
     Return (Inr (zero_header, 4)) \<lparr>data = lnk_header 4, pos = 76\<rparr>"
  by (simp add: parseHeader_def run_defs lnkCLSID_def zero_header_def lnk_header_def)

text \<open>
  C8, as the code has it. The two fields are read before either is compared, and the
  size is compared first. So, for a file \<open>d\<close> decoded from its start: with fewer than
  the 20 bytes of the two fields the header decoder fails with UnexpectedEOF; with
  them, a header-size field other than \<open>0x4C\<close> fails with InvalidHeaderSize, and a
  header-size field \<open>0x4C\<close> with a class identifier other than the signature fails
  with InvalidClassID. A header is returned only when both fields are right.
\<close>

theorem parseHeader_rejects:
  "(length d < 20 \<longrightarrow>
      parseHeader (NewBinaryReader d) =
        Return (Inl UnexpectedEOF) \<lparr>data = d, pos = (if length d < 4 then 0 else 4)\<rparr>) \<and>
   (20 \<le> length d \<and> le32 (take 4 d) \<noteq> 0x4C \<longrightarrow>
      parseHeader (NewBinaryReader d) = Return (Inl InvalidHeaderSize) \<lparr>data = d, pos = 20\<rparr>) \<and>
   (20 \<le> length d \<and> le32 (take 4 d) = 0x4C \<and> take 16 (drop 4 d) \<noteq> lnkCLSID \<longrightarrow>
      parseHeader (NewBinaryReader d) = Return (Inl InvalidCLSID) \<lparr>data = d, pos = 20\<rparr>) \<and>
   (parseHeader (NewBinaryReader d) = Return (Inr x) r' \<longrightarrow>
      20 \<le> length d \<and> le32 (take 4 d) = 0x4C \<and> take 16 (drop 4 d) = lnkCLSID)"
proof (intro conjI impI)
  assume "length d < 20"
  then show "parseHeader (NewBinaryReader d) =
      Return (Inl UnexpectedEOF) \<lparr>data = d, pos = (if length d < 4 then 0 else 4)\<rparr>"
    by (rule header_short)
next
  assume "20 \<le> length d \<and> le32 (take 4 d) \<noteq> 0x4C"
  then show "parseHeader (NewBinaryReader d) =
      Return (Inl InvalidHeaderSize) \<lparr>data = d, pos = 20\<rparr>"
    by (simp add: header_bad_size)
next
  assume "20 \<le> length d \<and> le32 (take 4 d) = 0x4C \<and> take 16 (drop 4 d) \<noteq> lnkCLSID"
  then show "parseHeader (NewBinaryReader d) = Return (Inl InvalidCLSID) \<lparr>data = d, pos = 20\<rparr>"
    by (simp add: header_bad_clsid)
next
  assume ok: "parseHeader (NewBinaryReader d) = Return (Inr x) r'"
  show len: "20 \<le> length d"
  proof (rule ccontr)
    assume "\<not> 20 \<le> length d"
    then have "length d < 20" by simp
    from header_short [OF this] ok show False by simp
  qed
  show hs: "le32 (take 4 d) = 0x4C"
  proof (rule ccontr)
    assume "le32 (take 4 d) \<noteq> 0x4C"
    from header_bad_size [OF len this] ok show False by simp
  qed
  show "take 16 (drop 4 d) = lnkCLSID"
  proof (rule ccontr)
    assume "take 16 (drop 4 d) \<noteq> lnkCLSID"
    from header_bad_clsid [OF len hs this] ok show False by simp
  qed
qed

theorem parseHeader_rejects_witness:
  "parseHeader (NewBinaryReader []) = Return (Inl UnexpectedEOF) \<lparr>data = [], pos = 0\<rparr> \<and>
   parseHeader (NewBinaryReader [0, 0, 0, 0, 0, 0, 0, 0, 0, 0, 0, 0, 0, 0, 0, 0, 0, 0, 0, 0]) =
     Return (Inl InvalidHeaderSize)
       \<lparr>data = [0, 0, 0, 0, 0, 0, 0, 0, 0, 0, 0, 0, 0, 0, 0, 0, 0, 0, 0, 0], pos = 20\<rparr> \<and>
   parseHeader
       (NewBinaryReader [0x4C, 0, 0, 0, 0, 0, 0, 0, 0, 0, 0, 0, 0, 0, 0, 0, 0, 0, 0, 0]) =
     Return (Inl InvalidCLSID)
       \<lparr>data = [0x4C, 0, 0, 0, 0, 0, 0, 0, 0, 0, 0, 0, 0, 0, 0, 0, 0, 0, 0, 0], pos = 20\<rparr> \<and>
   parseHeader (NewBinaryReader (lnk_header 4)) =
     Return (Inr (zero_header, 4)) \<lparr>data = lnk_header 4, pos = 76\<rparr> \<and>
   20 \<le> length (lnk_header 4) \<and>
   le32 (take 4 (lnk_header 4)) = 0x4C \<and> take 16 (drop 4 (lnk_header 4)) = lnkCLSID"
proof -
  have short: "parseHeader (NewBinaryReader []) = Return (Inl UnexpectedEOF) \<lparr>data = [], pos = 0\<rparr>"
    using parseHeader_rejects [of "[]"] by simp
  have size: "parseHeader
       (NewBinaryReader [0, 0, 0, 0, 0, 0, 0, 0, 0, 0, 0, 0, 0, 0, 0, 0, 0, 0, 0, 0]) =
     Return (Inl InvalidHeaderSize)
       \<lparr>data = [0, 0, 0, 0, 0, 0, 0, 0, 0, 0, 0, 0, 0, 0, 0, 0, 0, 0, 0, 0], pos = 20\<rparr>"
    using parseHeader_rejects [of "[0, 0, 0, 0, 0, 0, 0, 0, 0, 0, 0, 0, 0, 0, 0, 0, 0, 0, 0, 0]"]
    by (simp add: le32_def)
  have clsid: "parseHeader
       (NewBinaryReader [0x4C, 0, 0, 0, 0, 0, 0, 0, 0, 0, 0, 0, 0, 0, 0, 0, 0, 0, 0, 0]) =
     Return (Inl InvalidCLSID)
       \<lparr>data = [0x4C, 0, 0, 0, 0, 0, 0, 0, 0, 0, 0, 0, 0, 0, 0, 0, 0, 0, 0, 0], pos = 20\<rparr>"
    using parseHeader_rejects
      [of "[0x4C, 0, 0, 0, 0, 0, 0, 0, 0, 0, 0, 0, 0, 0, 0, 0, 0, 0, 0, 0]"]
    by (simp add: le32_def lnkCLSID_def)
  have ok: "20 \<le> length (lnk_header 4) \<and>
      le32 (take 4 (lnk_header 4)) = 0x4C \<and> take 16 (drop 4 (lnk_header 4)) = lnkCLSID"
    using parseHeader_rejects
      [of "lnk_header 4" "(zero_header, 4)" "\<lparr>data = lnk_header 4, pos = 76\<rparr>"]
      parseHeader_lnk_header_4
    by simp
  from short size clsid ok parseHeader_lnk_header_4 show ?thesis by simp
qed

text \<open>
  The claim as stated fails on short files and when both fields are wrong: the four
  bytes \<^verbatim>\<open>00 00 00 00\<close> hold a header-size field that is not \<open>0x4C\<close>, and the decoder
  fails with UnexpectedEOF, not InvalidHeaderSize; twenty zero bytes hold a class
  identifier that is not the signature, and the decoder fails with InvalidHeaderSize,
  not InvalidClassID.
\<close>

theorem parseHeader_other_error:
  "parseHeader (NewBinaryReader [0, 0, 0, 0]) =
     Return (Inl UnexpectedEOF) \<lparr>data = [0, 0, 0, 0], pos = 4\<rparr> \<and>
   le32 [0, 0, 0, 0] \<noteq> 0x4C \<and>
   parseHeader (NewBinaryReader [0, 0, 0, 0, 0, 0, 0, 0, 0, 0, 0, 0, 0, 0, 0, 0, 0, 0, 0, 0]) =
     Return (Inl InvalidHeaderSize)
       \<lparr>data = [0, 0, 0, 0, 0, 0, 0, 0, 0, 0, 0, 0, 0, 0, 0, 0, 0, 0, 0, 0], pos = 20\<rparr> \<and>
   [0, 0, 0, 0, 0, 0, 0, 0, 0, 0, 0, 0, 0, 0, 0, 0] \<noteq> lnkCLSID"
  by (simp add: parseHeader_def run_defs lnkCLSID_def)

text \<open>
  C1. The claim: whenever an operation of the decoder returns success, the cursor is at
  most the buffer length; this names the ten reserved bytes of the header decoder. The
  checked primitives keep it (\<open>read_in_bounds\<close>, \<open>readBytes_in_bounds\<close>,
  \<open>seek_in_bounds\<close>), but the header decoder does not look at the errors of its nine
  field reads and adds 10 to the cursor without a check: on the 20 bytes of a header
  size and a class identifier it returns a header, with the cursor at 30, and \<^verbatim>\<open>main\<close>
  prints a report of that header.
\<close>

theorem parseHeader_cursor_past_end:
  "parseHeader (NewBinaryReader ([0x4C, 0, 0, 0] @ lnkCLSID)) =
     Return (Inr (zero_header, 0)) \<lparr>data = [0x4C, 0, 0, 0] @ lnkCLSID, pos = 30\<rparr> \<and>
   length ([0x4C, 0, 0, 0] @ lnkCLSID) = 20 \<and>
   main ([0x4C, 0, 0, 0] @ lnkCLSID) = Some (Report zero_header [] [])"
  by (simp add: main_def sections_def stringField_def readString_def parseHeader_def
      skipExtraData.simps run_defs strOf_def TrimRight_nul_def lnkCLSID_def zero_header_def
      lnk_header_def)

subsection \<open>The link info\<close>

lemma readCString_loop_data: "readCString_loop r out = Return v r' \<Longrightarrow> data r' = data r"
proof (induction r out rule: readCString_loop.induct)
  case (1 r out)
  from "1.prems" show ?case
    apply (subst (asm) readCString_loop.simps)
    apply (auto split: result.splits sum.splits list.splits if_splits dest: readBytes_data)
    using "1.IH" readBytes_data by fastforce
qed

lemma linkInfoPath_data:
  "linkInfoPath start off key out r = Return out' r' \<Longrightarrow> data r' = data r"
  by (auto simp: linkInfoPath_def readCString_def then_do_Return split: if_splits
      dest!: seek_data readCString_loop_data)

text \<open>
  Every path through \<^verbatim>\<open>parseLinkInfo\<close> that returns ends with the seek to
  \<open>start + size\<close>, on the same buffer, where \<open>size\<close> is what the first read left in
  its variable.
\<close>

lemma parseLinkInfo_steps:
  assumes "parseLinkInfo r = Return out r'"
  obtains v1 r1 r9 u where "read r 4 = Return v1 r1" and "data r9 = data r"
    and "seek r9 (pos r + decoded le32 v1) = Return u r'"
proof -
  from assms obtain v1 r1 v2 r2 v3 r3 v4 r4 v5 r5 v6 r6 v7 r7 o8 r8 o9 r9 u where
    a: "read r 4 = Return v1 r1" "read r1 4 = Return v2 r2" "read r2 4 = Return v3 r3"
      "read r3 4 = Return v4 r4" "read r4 4 = Return v5 r5" "read r5 4 = Return v6 r6"
      "read r6 4 = Return v7 r7"
      "linkInfoPath (pos r) (decoded le32 v5) ''LocalBasePath'' [] r7 = Return o8 r8"
      "linkInfoPath (pos r) (decoded le32 v7) ''CommonPathSuffix'' o8 r8 = Return o9 r9"
      "seek r9 (pos r + decoded le32 v1) = Return u r'"
    unfolding parseLinkInfo_def Let_def then_do_Return by auto
  have "data r9 = data r"
    using a(1-9) by (simp add: read_data linkInfoPath_data)
  with a(1,10) that show thesis by blast
qed

lemma parseLinkInfo_linkinfo_block:
  "parseLinkInfo (NewBinaryReader linkinfo_block) =
     Return (Inr [(''LocalBasePath'', [0x43, 0x3A])]) \<lparr>data = linkinfo_block, pos = 32\<rparr>"
  by (simp add: parseLinkInfo_def linkInfoPath_def readCString_def readCString_loop.simps
      strOf_def run_defs linkinfo_block_def)

lemma read_linkinfo_block:
  "read (NewBinaryReader linkinfo_block) 4 =
     Return (Inr [32, 0, 0, 0]) \<lparr>data = linkinfo_block, pos = 4\<rparr>"
  by (simp add: run_defs linkinfo_block_def)

text \<open>
  On a buffer shorter than \<open>2 ^ 32 - 1\<close> bytes the link-info decoder never panics: it
  always returns, and without an error.
\<close>

lemma read_4_total:
  assumes "length (data r) < 2 ^ 32"
  obtains v r' where "read r 4 = Return v r'" and "data r' = data r"
    and "decoded le32 v \<noteq> (0 :: 32 word) \<or> unat (pos r) \<le> length (data r)
           \<Longrightarrow> unat (pos r') \<le> length (data r)"
proof (cases "unat (pos r) + 4 > length (data r)")
  case True
  then have "read r 4 = Return (Inl UnexpectedEOF) r" by (simp add: read_def)
  then show thesis by (rule that) (auto simp: decoded_def)
next
  case False
  with assms have "unat (pos r) + unat (4 :: 32 word) < 2 ^ 32" by simp
  then have u: "unat (pos r + 4) = unat (pos r) + 4"
    using unat_add_lem [of "pos r" 4] by simp
  with False have rd: "read r 4 =
      Return (Inr (take 4 (drop (unat (pos r)) (data r)))) (r\<lparr>pos := pos r + 4\<rparr>)"
    by (simp add: read_def slice_def)
  show thesis
  proof (rule that [OF rd])
    show "data (r\<lparr>pos := pos r + 4\<rparr>) = data r" by simp
    show "unat (pos (r\<lparr>pos := pos r + 4\<rparr>)) \<le> length (data r)"
      using u False by simp
  qed
qed

lemma readCString_loop_total:
  assumes "unat (pos r) \<le> length (data r)" and "length (data r) + 1 < 2 ^ 32"
  shows "\<exists>v r'. readCString_loop r out = Return v r' \<and> data r' = data r \<and>
           unat (pos r') \<le> length (data r)"
  using assms
proof (induction r out rule: readCString_loop.induct)
  case (1 r out)
  show ?case
  proof (cases "unat (pos r + 1) > length (data r)")
    case True
    then show ?thesis
      using "1.prems"(1) by (subst readCString_loop.simps) (simp add: readBytes_def)
  next
    case False
    from "1.prems" have "unat (pos r) + unat (1 :: 32 word) < 2 ^ 32" by simp
    then have u: "unat (pos r + 1) = unat (pos r) + 1"
      using unat_add_lem [of "pos r" 1] by simp
    with False have lt: "unat (pos r) < length (data r)" by simp
    then obtain x xs where dr: "drop (unat (pos r)) (data r) = x # xs"
      by (cases "drop (unat (pos r)) (data r)") auto
    have rb: "readBytes r 1 = Return (Inr [x]) (r\<lparr>pos := pos r + 1\<rparr>)"
      using False u dr by (simp add: readBytes_def slice_def)
    show ?thesis
    proof (cases "x = 0")
      case True
      with rb u lt show ?thesis by (subst readCString_loop.simps) simp
    next
      case nz: False
      have "\<exists>v r'. readCString_loop (r\<lparr>pos := pos r + 1\<rparr>) (out @ [x]) = Return v r' \<and>
          data r' = data (r\<lparr>pos := pos r + 1\<rparr>) \<and>
          unat (pos r') \<le> length (data (r\<lparr>pos := pos r + 1\<rparr>))"
        using "1.IH" [OF rb refl refl nz] u lt "1.prems"(2) by simp
      with rb nz show ?thesis by (subst readCString_loop.simps) simp
    qed
  qed
qed

lemma linkInfoPath_total:
  assumes "length (data r) + 1 < 2 ^ 32"
    and "off \<noteq> 0 \<Longrightarrow> unat (pos r) \<le> length (data r)"
  obtains out' r' where "linkInfoPath start off key out r = Return out' r'"
    and "data r' = data r"
    and "unat (pos r) \<le> length (data r) \<Longrightarrow> unat (pos r') \<le> length (data r)"
proof (cases "off = 0")
  case True
  then have "linkInfoPath start off key out r = Return out r" by (simp add: linkInfoPath_def)
  then show thesis by (rule that) simp_all
next
  case False
  with assms(2) have b: "unat (pos r) \<le> length (data r)" by simp
  obtain u ra where s: "seek r (start + off) = Return u ra" and da: "data ra = data r"
    and ba: "unat (pos ra) \<le> length (data ra)"
    using b by (cases "unat (start + off) > length (data r)") (auto simp: seek_def)
  from readCString_loop_total [of ra "[]"] ba da assms(1)
  obtain v rb where c: "readCString ra = Return v rb" and db: "data rb = data r"
    and bb: "unat (pos rb) \<le> length (data r)"
    by (auto simp: readCString_def)
  from False s c have "linkInfoPath start off key out r = Return (assign key (strOf v) out) rb"
    by (simp add: linkInfoPath_def then_do_def)
  then show thesis using db bb by (rule that)
qed

lemma parseLinkInfo_total:
  assumes "length (data r) + 1 < 2 ^ 32"
  shows "\<exists>out r'. parseLinkInfo r = Return (Inr out) r'"
proof -
  from assms have l: "length (data r) < 2 ^ 32" by simp
  obtain v1 r1 where a1: "read r 4 = Return v1 r1" and d1: "data r1 = data r"
    and b1: "decoded le32 v1 \<noteq> (0 :: 32 word) \<or> unat (pos r) \<le> length (data r)
           \<Longrightarrow> unat (pos r1) \<le> length (data r)"
    using read_4_total [OF l] by blast
  obtain v2 r2 where a2: "read r1 4 = Return v2 r2" and d2: "data r2 = data r"
    and b2: "unat (pos r1) \<le> length (data r) \<Longrightarrow> unat (pos r2) \<le> length (data r)"
    using read_4_total [of r1] l d1 by metis
  obtain v3 r3 where a3: "read r2 4 = Return v3 r3" and d3: "data r3 = data r"
    and b3: "unat (pos r2) \<le> length (data r) \<Longrightarrow> unat (pos r3) \<le> length (data r)"
    using read_4_total [of r2] l d2 by metis
  obtain v4 r4 where a4: "read r3 4 = Return v4 r4" and d4: "data r4 = data r"
    and b4: "unat (pos r3) \<le> length (data r) \<Longrightarrow> unat (pos r4) \<le> length (data r)"
    using read_4_total [of r3] l d3 by metis
  obtain v5 r5 where a5: "read r4 4 = Return v5 r5" and d5: "data r5 = data r"
    and b5: "decoded le32 v5 \<noteq> (0 :: 32 word) \<Longrightarrow> unat (pos r5) \<le> length (data r)"
    using read_4_total [of r4] l d4 by metis
  obtain v6 r6 where a6: "read r5 4 = Return v6 r6" and d6: "data r6 = data r"
    and b6: "unat (pos r5) \<le> length (data r) \<Longrightarrow> unat (pos r6) \<le> length (data r)"
    using read_4_total [of r5] l d5 by metis
  obtain v7 r7 where a7: "read r6 4 = Return v7 r7" and d7: "data r7 = data r"
    and b7: "decoded le32 v7 \<noteq> (0 :: 32 word) \<or> unat (pos r6) \<le> length (data r)
           \<Longrightarrow> unat (pos r7) \<le> length (data r)"
    using read_4_total [of r6] l d6 by metis
  have "decoded le32 v5 \<noteq> (0 :: 32 word) \<Longrightarrow> unat (pos r7) \<le> length (data r7)"
    using b5 b6 b7 d7 by simp
  with assms d7 obtain o8 r8 where
    a8: "linkInfoPath (pos r) (decoded le32 v5) ''LocalBasePath'' [] r7 = Return o8 r8"
    and d8: "data r8 = data r"
    and b8: "unat (pos r7) \<le> length (data r) \<Longrightarrow> unat (pos r8) \<le> length (data r)"
    using linkInfoPath_total [of r7 "decoded le32 v5" "pos r" "''LocalBasePath''" "[]"]
    by (metis (no_types))
  have "decoded le32 v7 \<noteq> (0 :: 32 word) \<Longrightarrow> unat (pos r8) \<le> length (data r8)"
    using b7 b8 d8 by simp
  with assms d8 obtain o9 r9 where
    a9: "linkInfoPath (pos r) (decoded le32 v7) ''CommonPathSuffix'' o8 r8 = Return o9 r9"
    using linkInfoPath_total [of r8 "decoded le32 v7" "pos r" "''CommonPathSuffix''" o8]
    by (metis (no_types))
  obtain u r10 where a10: "seek r9 (pos r + decoded le32 v1) = Return u r10"
    by (cases "unat (pos r + decoded le32 v1) > length (data r9)") (auto simp: seek_def)
  from a1 a2 a3 a4 a5 a6 a7 a8 a9 a10 show ?thesis
    by (simp add: parseLinkInfo_def Let_def then_do_def)
qed

lemma parseLinkInfo_cursor_word:
  assumes "parseLinkInfo r = Return out r'"
    and "read r 4 = Return v r1"
    and "unat (pos r + decoded le32 v) \<le> length (data r)"
  shows "pos r' = pos r + decoded le32 v"
proof -
  from assms(1) obtain v1 r1' r9 u where "read r 4 = Return v1 r1'" and d: "data r9 = data r"
    and s: "seek r9 (pos r + decoded le32 v1) = Return u r'"
    by (rule parseLinkInfo_steps)
  with assms(2) have "seek r9 (pos r + decoded le32 v) = Return u r'" by simp
  with d assms(3) show ?thesis by (auto simp: seek_def)
qed

text \<open>
  The sum \<open>start + size\<close> is made in \<^verbatim>\<open>uint32\<close>: in \<open>wrapping_block\<close>, decoded from
  cursor 4, it wraps around to 0, the seek succeeds and the cursor ends at 0.
\<close>

lemma parseLinkInfo_wraps:
  "parseLinkInfo \<lparr>data = wrapping_block, pos = 4\<rparr> =
     Return (Inr []) \<lparr>data = wrapping_block, pos = 0\<rparr>"
  by (simp add: parseLinkInfo_def linkInfoPath_def run_defs wrapping_block_def)

text \<open>
  C3, as the code has it. Let \<open>start\<close> be the cursor at which the link-info decoder is
  invoked and \<open>size\<close> the value its first read leaves in the size variable (the decoded
  field, or zero when that read failed). Whenever \<open>start + size\<close> does not exceed the
  buffer length and is below \<open>2 ^ 32\<close>, the range of the cursor, the decoder leaves the
  cursor at exactly \<open>start + size\<close> when it returns, whether the two path offsets were
  zero or not.
\<close>

theorem parseLinkInfo_cursor:
  assumes "parseLinkInfo r = Return out r'"
    and "read r 4 = Return v r1"
    and "unat (pos r) + unat (decoded le32 v :: 32 word) \<le> length (data r)"
    and "unat (pos r) + unat (decoded le32 v :: 32 word) < 2 ^ 32"
  shows "unat (pos r') = unat (pos r) + unat (decoded le32 v :: 32 word)"
proof -
  from assms(4) have e: "unat (pos r + decoded le32 v) = unat (pos r) + unat (decoded le32 v :: 32 word)"
    using unat_add_lem [of "pos r" "decoded le32 v"] by simp
  with assms(3) have "unat (pos r + decoded le32 v) \<le> length (data r)" by simp
  with assms(1,2) have "pos r' = pos r + decoded le32 v"
    by (rule parseLinkInfo_cursor_word)
  with e show ?thesis by simp
qed

theorem parseLinkInfo_cursor_witness:
  "parseLinkInfo (NewBinaryReader linkinfo_block) =
     Return (Inr [(''LocalBasePath'', [0x43, 0x3A])]) \<lparr>data = linkinfo_block, pos = 32\<rparr> \<and>
   read (NewBinaryReader linkinfo_block) 4 =
     Return (Inr [32, 0, 0, 0]) \<lparr>data = linkinfo_block, pos = 4\<rparr> \<and>
   unat (pos (NewBinaryReader linkinfo_block)) + unat (decoded le32 (Inr [32, 0, 0, 0]) :: 32 word)
     \<le> length (data (NewBinaryReader linkinfo_block)) \<and>
   unat (pos (NewBinaryReader linkinfo_block)) + unat (decoded le32 (Inr [32, 0, 0, 0]) :: 32 word)
     < 2 ^ 32 \<and>
   unat (pos \<lparr>data = linkinfo_block, pos = 32\<rparr>) =
     unat (pos (NewBinaryReader linkinfo_block)) + unat (decoded le32 (Inr [32, 0, 0, 0]) :: 32 word)"
proof -
  have b: "unat (pos (NewBinaryReader linkinfo_block)) +
      unat (decoded le32 (Inr [32, 0, 0, 0]) :: 32 word)
      \<le> length (data (NewBinaryReader linkinfo_block))"
    by (simp add: NewBinaryReader_def decoded_def le32_def linkinfo_block_def)
  have c: "unat (pos (NewBinaryReader linkinfo_block)) +
      unat (decoded le32 (Inr [32, 0, 0, 0]) :: 32 word) < 2 ^ 32"
    by (simp add: NewBinaryReader_def decoded_def le32_def)
  from parseLinkInfo_cursor [OF parseLinkInfo_linkinfo_block read_linkinfo_block b c]
    parseLinkInfo_linkinfo_block read_linkinfo_block b c
  show ?thesis by blast
qed

text \<open>
  The claim as stated fails when the size field points beyond the buffer: for 28 bytes
  whose size field is 100 and whose other fields are zero, decoded from cursor 0, the
  seek to 100 fails and the decoder returns with the cursor at 28.
\<close>

theorem parseLinkInfo_seek_fails:
  "parseLinkInfo (NewBinaryReader ([100, 0, 0, 0] @ replicate 24 0)) =
     Return (Inr []) \<lparr>data = [100, 0, 0, 0] @ replicate 24 0, pos = 28\<rparr> \<and>
   read (NewBinaryReader ([100, 0, 0, 0] @ replicate 24 0)) 4 =
     Return (Inr [100, 0, 0, 0]) \<lparr>data = [100, 0, 0, 0] @ replicate 24 0, pos = 4\<rparr> \<and>
   le32 [100, 0, 0, 0] = 100"
  by (simp add: parseLinkInfo_def linkInfoPath_def run_defs)

subsection \<open>The program\<close>

text \<open>
  The file \<open>lnk_header 4\<close>: a header whose flags announce a Name string, and nothing
  after it. The string read and the extra-data skip both fail at cursor 76.
\<close>

lemma readString_lnk_header_4:
  "readString \<lparr>data = lnk_header 4, pos = 76\<rparr> False =
     Return (Inl UnexpectedEOF) \<lparr>data = lnk_header 4, pos = 76\<rparr>"
  by (simp add: readString_def run_defs lnkCLSID_def lnk_header_def)

lemma skipExtraData_lnk_header_4:
  "skipExtraData \<lparr>data = lnk_header 4, pos = 76\<rparr> =
     Some (Return (Inl UnexpectedEOF) \<lparr>data = lnk_header 4, pos = 76\<rparr>)"
  by (simp add: skipExtraData.simps run_defs lnkCLSID_def lnk_header_def)

lemma sections_lnk_header_4:
  "sections 4 \<lparr>data = lnk_header 4, pos = 76\<rparr> =
     Return ([], [(''Name'', [])]) \<lparr>data = lnk_header 4, pos = 76\<rparr>"
  by (simp add: sections_def stringField_def readString_lnk_header_4 then_do_def strOf_def)

lemma main_lnk_header_4:
  "main (lnk_header 4) = Some (Report zero_header [] [(''Name'', [])])"
  by (simp add: main_def parseHeader_lnk_header_4 sections_lnk_header_4
      skipExtraData_lnk_header_4)

lemma parseHeader_empty:
  "parseHeader (NewBinaryReader []) = Return (Inl UnexpectedEOF) \<lparr>data = [], pos = 0\<rparr>"
  by (simp add: parseHeader_def run_defs)

text \<open>The link-info step itself never returns an error: it discards those of its reads.\<close>

lemma parseLinkInfo_never_errors:
  assumes "parseLinkInfo r = Return v r'"
  shows "\<exists>m. v = Inr m"
  using assms unfolding parseLinkInfo_def Let_def then_do_Return by auto

text \<open>A parse error comes from the header step and from nowhere else.\<close>

lemma main_parse_error_iff:
  "main d = Some (ParseError e) \<longleftrightarrow>
     (\<exists>r'. parseHeader (NewBinaryReader d) = Return (Inl e) r')"
  by (auto simp: main_def split: result.splits sum.splits option.splits prod.splits)

lemma main_report_header:
  "main d = Some (Report h li st) \<Longrightarrow>
     \<exists>fl r'. parseHeader (NewBinaryReader d) = Return (Inr (h, fl)) r'"
  by (auto simp: main_def split: result.splits sum.splits option.splits prod.splits)

text \<open>
  Once the header is decoded, whatever the later steps return, error or not, the report
  is printed, as long as each of them returns.
\<close>

lemma main_later_errors_discarded:
  assumes H: "parseHeader (NewBinaryReader d) = Return (Inr (h, fl)) r0"
    and I: "if fl AND 0x01 \<noteq> 0 then parseLinkTargetIDList r0 = Return v1 r1 else r1 = r0"
    and L: "if fl AND 0x02 \<noteq> 0
            then parseLinkInfo r1 = Return v2 r2 \<and> li = (case v2 of Inl _ \<Rightarrow> [] | Inr m \<Rightarrow> m)
            else r2 = r1 \<and> li = []"
    and N: "if fl AND 0x04 \<noteq> 0
            then readString r2 (fl AND 0x80 \<noteq> 0) = Return s1 r3 \<and> st1 = assign ''Name'' (case s1 of Inl _ \<Rightarrow> [] | Inr s \<Rightarrow> s) []
            else r3 = r2 \<and> st1 = []"
    and P: "if fl AND 0x08 \<noteq> 0
            then readString r3 (fl AND 0x80 \<noteq> 0) = Return s2 r4 \<and>
                 st2 = assign ''RelativePath'' (case s2 of Inl _ \<Rightarrow> [] | Inr s \<Rightarrow> s) st1
            else r4 = r3 \<and> st2 = st1"
    and W: "if fl AND 0x10 \<noteq> 0
            then readString r4 (fl AND 0x80 \<noteq> 0) = Return s3 r5 \<and>
                 st3 = assign ''WorkingDirectory'' (case s3 of Inl _ \<Rightarrow> [] | Inr s \<Rightarrow> s) st2
            else r5 = r4 \<and> st3 = st2"
    and A: "if fl AND 0x20 \<noteq> 0
            then readString r5 (fl AND 0x80 \<noteq> 0) = Return s4 r6 \<and>
                 st4 = assign ''Arguments'' (case s4 of Inl _ \<Rightarrow> [] | Inr s \<Rightarrow> s) st3
            else r6 = r5 \<and> st4 = st3"
    and C: "if fl AND 0x40 \<noteq> 0
            then readString r6 (fl AND 0x80 \<noteq> 0) = Return s5 r7 \<and>
                 st5 = assign ''IconLocation'' (case s5 of Inl _ \<Rightarrow> [] | Inr s \<Rightarrow> s) st4
            else r7 = r6 \<and> st5 = st4"
    and X: "skipExtraData r7 = Some (Return v8 r8)"
  shows "main d = Some (Report h li st5)"
proof -
  have i: "(if fl AND 0x01 \<noteq> 0
            then then_do (parseLinkTargetIDList r0) (\<lambda>_ r'. Return () r')
            else Return () r0) = Return () r1"
    using I by (simp add: then_do_Return_left split: if_splits)
  have l: "(if fl AND 0x02 \<noteq> 0
            then then_do (parseLinkInfo r1) (\<lambda>v r'.
                   Return (case v of Inl _ \<Rightarrow> [] | Inr m \<Rightarrow> m) r')
            else Return [] r1) = Return li r2"
    using L by (simp add: then_do_Return_left split: if_splits)
  have n: "stringField fl 0x04 ''Name'' (fl AND 0x80 \<noteq> 0) [] r2 = Return st1 r3"
    using N by (simp add: stringField_def strOf_def then_do_Return_left split: if_splits)
  have p: "stringField fl 0x08 ''RelativePath'' (fl AND 0x80 \<noteq> 0) st1 r3 = Return st2 r4"
    using P by (simp add: stringField_def strOf_def then_do_Return_left split: if_splits)
  have w: "stringField fl 0x10 ''WorkingDirectory'' (fl AND 0x80 \<noteq> 0) st2 r4 = Return st3 r5"
    using W by (simp add: stringField_def strOf_def then_do_Return_left split: if_splits)
  have a: "stringField fl 0x20 ''Arguments'' (fl AND 0x80 \<noteq> 0) st3 r5 = Return st4 r6"
    using A by (simp add: stringField_def strOf_def then_do_Return_left split: if_splits)
  have c: "stringField fl 0x40 ''IconLocation'' (fl AND 0x80 \<noteq> 0) st4 r6 = Return st5 r7"
    using C by (simp add: stringField_def strOf_def then_do_Return_left split: if_splits)
  have "sections fl r0 = Return (li, st5) r7"
    unfolding sections_def Let_def
    by (simp only: i l n p w a c then_do_Return_left)
  with H X show ?thesis by (simp add: main_def)
qed

lemma parseHeader_failing_steps_file:
  "parseHeader (NewBinaryReader failing_steps_file) =
     Return (Inr (zero_header, 7)) \<lparr>data = failing_steps_file, pos = 76\<rparr>"
  by (simp add: parseHeader_def run_defs lnkCLSID_def zero_header_def lnk_header_def
      failing_steps_file_def)

lemma parseLinkTargetIDList_failing_steps_file:
  "parseLinkTargetIDList \<lparr>data = failing_steps_file, pos = 76\<rparr> =
     Return (Inl InvalidIDListTerminator) \<lparr>data = failing_steps_file, pos = 80\<rparr>"
  by (simp add: parseLinkTargetIDList_def HasSuffix_def run_defs lnkCLSID_def lnk_header_def
      failing_steps_file_def)

lemma parseLinkInfo_failing_steps_file:
  "parseLinkInfo \<lparr>data = failing_steps_file, pos = 80\<rparr> =
     Return (Inr []) \<lparr>data = failing_steps_file, pos = 108\<rparr>"
  by (simp add: parseLinkInfo_def linkInfoPath_def run_defs lnkCLSID_def lnk_header_def
      failing_steps_file_def)

lemma readString_failing_steps_file:
  "readString \<lparr>data = failing_steps_file, pos = 108\<rparr> False =
     Return (Inl UnexpectedEOF) \<lparr>data = failing_steps_file, pos = 110\<rparr>"
  by (simp add: readString_def run_defs lnkCLSID_def lnk_header_def failing_steps_file_def)

lemma skipExtraData_failing_steps_file:
  "skipExtraData \<lparr>data = failing_steps_file, pos = 110\<rparr> =
     Some (Return (Inl UnexpectedEOF) \<lparr>data = failing_steps_file, pos = 110\<rparr>)"
  by (simp add: skipExtraData.simps run_defs lnkCLSID_def lnk_header_def failing_steps_file_def)

text \<open>
  C2, as the code has it. Only the header step is checked by \<^verbatim>\<open>main\<close>. If the header
  decoder fails, the whole decode fails with that error and no report is printed; that
  is the only way a run ends with a parse error, and a report carries the header that
  the header decoder returned. The errors of the later steps are discarded: once the
  header is decoded with the flags \<open>fl\<close>, whatever the ID-list step, the link-info
  step, the read of each string field whose flag is set and the extra-data skip return,
  an error or not, the report is printed as soon as each of them has returned; it
  carries the link info that the link-info step returned and, under the key of each
  string field whose flag is set, the string that its read returned, or the empty
  string when that read failed.
\<close>

theorem main_only_header_failure_stops:
  "(main d = Some (ParseError e) \<longleftrightarrow>
      (\<exists>r'. parseHeader (NewBinaryReader d) = Return (Inl e) r')) \<and>
   (main d = Some (Report h li st) \<longrightarrow>
      (\<exists>fl r'. parseHeader (NewBinaryReader d) = Return (Inr (h, fl)) r')) \<and>
   (parseHeader (NewBinaryReader d) = Return (Inr (h', fl)) r0 \<and>
    (if fl AND 0x01 \<noteq> 0 then parseLinkTargetIDList r0 = Return v1 r1 else r1 = r0) \<and>
    (if fl AND 0x02 \<noteq> 0
     then parseLinkInfo r1 = Return v2 r2 \<and> li' = (case v2 of Inl _ \<Rightarrow> [] | Inr m \<Rightarrow> m)
     else r2 = r1 \<and> li' = []) \<and>
    (if fl AND 0x04 \<noteq> 0
     then readString r2 (fl AND 0x80 \<noteq> 0) = Return s1 r3 \<and>
          st1 = assign ''Name'' (case s1 of Inl _ \<Rightarrow> [] | Inr s \<Rightarrow> s) []
     else r3 = r2 \<and> st1 = []) \<and>
    (if fl AND 0x08 \<noteq> 0
     then readString r3 (fl AND 0x80 \<noteq> 0) = Return s2 r4 \<and>
          st2 = assign ''RelativePath'' (case s2 of Inl _ \<Rightarrow> [] | Inr s \<Rightarrow> s) st1
     else r4 = r3 \<and> st2 = st1) \<and>
    (if fl AND 0x10 \<noteq> 0
     then readString r4 (fl AND 0x80 \<noteq> 0) = Return s3 r5 \<and>
          st3 = assign ''WorkingDirectory'' (case s3 of Inl _ \<Rightarrow> [] | Inr s \<Rightarrow> s) st2
     else r5 = r4 \<and> st3 = st2) \<and>
    (if fl AND 0x20 \<noteq> 0
     then readString r5 (fl AND 0x80 \<noteq> 0) = Return s4 r6 \<and>
          st4 = assign ''Arguments'' (case s4 of Inl _ \<Rightarrow> [] | Inr s \<Rightarrow> s) st3
     else r6 = r5 \<and> st4 = st3) \<and>
    (if fl AND 0x40 \<noteq> 0
     then readString r6 (fl AND 0x80 \<noteq> 0) = Return s5 r7 \<and>
          st5 = assign ''IconLocation'' (case s5 of Inl _ \<Rightarrow> [] | Inr s \<Rightarrow> s) st4
     else r7 = r6 \<and> st5 = st4) \<and>
    skipExtraData r7 = Some (Return v8 r8)
    \<longrightarrow> main d = Some (Report h' li' st5))"
proof (intro conjI impI)
  show "main d = Some (ParseError e) \<longleftrightarrow>
      (\<exists>r'. parseHeader (NewBinaryReader d) = Return (Inl e) r')"
    by (rule main_parse_error_iff)
next
  assume "main d = Some (Report h li st)"
  then show "\<exists>fl r'. parseHeader (NewBinaryReader d) = Return (Inr (h, fl)) r'"
    by (rule main_report_header)
next
  assume a: "parseHeader (NewBinaryReader d) = Return (Inr (h', fl)) r0 \<and>
    (if fl AND 0x01 \<noteq> 0 then parseLinkTargetIDList r0 = Return v1 r1 else r1 = r0) \<and>
    (if fl AND 0x02 \<noteq> 0
     then parseLinkInfo r1 = Return v2 r2 \<and> li' = (case v2 of Inl _ \<Rightarrow> [] | Inr m \<Rightarrow> m)
     else r2 = r1 \<and> li' = []) \<and>
    (if fl AND 0x04 \<noteq> 0
     then readString r2 (fl AND 0x80 \<noteq> 0) = Return s1 r3 \<and>
          st1 = assign ''Name'' (case s1 of Inl _ \<Rightarrow> [] | Inr s \<Rightarrow> s) []
     else r3 = r2 \<and> st1 = []) \<and>
    (if fl AND 0x08 \<noteq> 0
     then readString r3 (fl AND 0x80 \<noteq> 0) = Return s2 r4 \<and>
          st2 = assign ''RelativePath'' (case s2 of Inl _ \<Rightarrow> [] | Inr s \<Rightarrow> s) st1
     else r4 = r3 \<and> st2 = st1) \<and>
    (if fl AND 0x10 \<noteq> 0
     then readString r4 (fl AND 0x80 \<noteq> 0) = Return s3 r5 \<and>
          st3 = assign ''WorkingDirectory'' (case s3 of Inl _ \<Rightarrow> [] | Inr s \<Rightarrow> s) st2
     else r5 = r4 \<and> st3 = st2) \<and>
    (if fl AND 0x20 \<noteq> 0
     then readString r5 (fl AND 0x80 \<noteq> 0) = Return s4 r6 \<and>
          st4 = assign ''Arguments'' (case s4 of Inl _ \<Rightarrow> [] | Inr s \<Rightarrow> s) st3
     else r6 = r5 \<and> st4 = st3) \<and>
    (if fl AND 0x40 \<noteq> 0
     then readString r6 (fl AND 0x80 \<noteq> 0) = Return s5 r7 \<and>
          st5 = assign ''IconLocation'' (case s5 of Inl _ \<Rightarrow> [] | Inr s \<Rightarrow> s) st4
     else r7 = r6 \<and> st5 = st4) \<and>
    skipExtraData r7 = Some (Return v8 r8)"
  show "main d = Some (Report h' li' st5)"
    by (rule main_later_errors_discarded [of d h' fl r0 v1 r1 v2 r2 li' s1 r3 st1 s2 r4 st2
          s3 r5 st3 s4 r6 st4 s5 r7 st5 v8 r8])
      (use a in blast)+
qed

theorem main_only_header_failure_stops_witness:
  "parseHeader (NewBinaryReader []) = Return (Inl UnexpectedEOF) \<lparr>data = [], pos = 0\<rparr> \<and>
   main [] = Some (ParseError UnexpectedEOF) \<and>
   parseHeader (NewBinaryReader failing_steps_file) =
     Return (Inr (zero_header, 7)) \<lparr>data = failing_steps_file, pos = 76\<rparr> \<and>
   parseLinkTargetIDList \<lparr>data = failing_steps_file, pos = 76\<rparr> =
     Return (Inl InvalidIDListTerminator) \<lparr>data = failing_steps_file, pos = 80\<rparr> \<and>
   parseLinkInfo \<lparr>data = failing_steps_file, pos = 80\<rparr> =
     Return (Inr []) \<lparr>data = failing_steps_file, pos = 108\<rparr> \<and>
   readString \<lparr>data = failing_steps_file, pos = 108\<rparr> False =
     Return (Inl UnexpectedEOF) \<lparr>data = failing_steps_file, pos = 110\<rparr> \<and>
   skipExtraData \<lparr>data = failing_steps_file, pos = 110\<rparr> =
     Some (Return (Inl UnexpectedEOF) \<lparr>data = failing_steps_file, pos = 110\<rparr>) \<and>
   main failing_steps_file = Some (Report zero_header [] [(''Name'', [])])"
proof -
  have e: "main [] = Some (ParseError UnexpectedEOF)"
    using main_only_header_failure_stops [where d = "[]" and e = UnexpectedEOF, THEN conjunct1]
      parseHeader_empty by blast
  have m: "main failing_steps_file = Some (Report zero_header [] [(''Name'', [])])"
    using main_only_header_failure_stops
      [where d = failing_steps_file and h' = zero_header and fl = 7
        and ?r0.0 = "\<lparr>data = failing_steps_file, pos = 76\<rparr>"
        and ?v1.0 = "Inl InvalidIDListTerminator"
        and ?r1.0 = "\<lparr>data = failing_steps_file, pos = 80\<rparr>"
        and ?v2.0 = "Inr []" and li' = "[]"
        and ?r2.0 = "\<lparr>data = failing_steps_file, pos = 108\<rparr>"
        and ?s1.0 = "Inl UnexpectedEOF" and ?st1.0 = "[(''Name'', [])]"
        and ?r3.0 = "\<lparr>data = failing_steps_file, pos = 110\<rparr>"
        and ?r4.0 = "\<lparr>data = failing_steps_file, pos = 110\<rparr>"
        and ?r5.0 = "\<lparr>data = failing_steps_file, pos = 110\<rparr>"
        and ?r6.0 = "\<lparr>data = failing_steps_file, pos = 110\<rparr>"
        and ?r7.0 = "\<lparr>data = failing_steps_file, pos = 110\<rparr>"
        and ?st2.0 = "[(''Name'', [])]" and ?st3.0 = "[(''Name'', [])]"
        and ?st4.0 = "[(''Name'', [])]" and ?st5.0 = "[(''Name'', [])]"
        and ?v8.0 = "Inl UnexpectedEOF"
        and ?r8.0 = "\<lparr>data = failing_steps_file, pos = 110\<rparr>",
        THEN conjunct2, THEN conjunct2]
      parseHeader_failing_steps_file parseLinkTargetIDList_failing_steps_file parseLinkInfo_failing_steps_file readString_failing_steps_file skipExtraData_failing_steps_file
    by simp
  have "\<exists>fl r'. parseHeader (NewBinaryReader failing_steps_file) = Return (Inr (zero_header, fl)) r'"
    using main_only_header_failure_stops
      [where d = failing_steps_file and h = zero_header and li = "[]"
        and st = "[(''Name'', [])]", THEN conjunct2, THEN conjunct1] m
    by blast
  with e m parseHeader_empty parseHeader_failing_steps_file parseLinkTargetIDList_failing_steps_file parseLinkInfo_failing_steps_file readString_failing_steps_file skipExtraData_failing_steps_file
  show ?thesis by simp
qed

text \<open>
  The claim as stated fails on \<open>lnk_header 4\<close>: the Name string read fails with
  UnexpectedEOF (and so does the extra-data skip), yet \<^verbatim>\<open>main\<close> prints the report, with
  an empty Name.
\<close>

theorem main_reports_after_failed_step:
  "readString \<lparr>data = lnk_header 4, pos = 76\<rparr> False =
     Return (Inl UnexpectedEOF) \<lparr>data = lnk_header 4, pos = 76\<rparr> \<and>
   skipExtraData \<lparr>data = lnk_header 4, pos = 76\<rparr> =
     Some (Return (Inl UnexpectedEOF) \<lparr>data = lnk_header 4, pos = 76\<rparr>) \<and>
   main (lnk_header 4) = Some (Report zero_header [] [(''Name'', [])])"
  by (simp add: readString_lnk_header_4 skipExtraData_lnk_header_4 main_lnk_header_4)

end
